theory Spec2Isabelle
  imports Complex_Main
begin

section \<open>Python values, exceptions and sequencing\<close>

text \<open>
  The exceptions the two modules can raise. \<open>UnboundLocalError\<close> is Python's error for a
  local variable that is read before any branch has assigned it; \<open>NameError\<close> is the error
  for a global name that no import or assignment binds.
\<close>

datatype error = ValueError | IndexError | ZeroDivisionError | NameError | UnboundLocalError

text \<open>A computation that may raise returns \<open>Inl\<close> of the exception or \<open>Inr\<close> of its value.\<close>

definition then_do :: "error + 'a \<Rightarrow> ('a \<Rightarrow> error + 'b) \<Rightarrow> error + 'b" where
  "then_do r k = (case r of Inl e \<Rightarrow> Inl e | Inr v \<Rightarrow> k v)"

text \<open>A list comprehension whose element expression may raise: the first exception wins.\<close>

fun map_result :: "('a \<Rightarrow> error + 'b) \<Rightarrow> 'a list \<Rightarrow> error + 'b list" where
  "map_result f [] = Inr []"
| "map_result f (x # xs) =
     (case f x of
        Inl e \<Rightarrow> Inl e
      | Inr y \<Rightarrow> (case map_result f xs of Inl e \<Rightarrow> Inl e | Inr ys \<Rightarrow> Inr (y # ys)))"

text \<open>\<open>xs[i]\<close>: a negative index counts from the end, an index out of range raises.\<close>

definition py_index :: "'a list \<Rightarrow> int \<Rightarrow> error + 'a" where
  "py_index xs i =
     (if 0 \<le> i \<and> i < int (length xs) then Inr (xs ! nat i)
      else if i < 0 \<and> - int (length xs) \<le> i then Inr (xs ! nat (int (length xs) + i))
      else Inl IndexError)"

text \<open>\<open>range(n)\<close>: empty for \<open>n \<le> 0\<close>.\<close>

definition py_range :: "int \<Rightarrow> int list" where
  "py_range n = map int [0..<nat n]"

text \<open>\<open>int(x)\<close> of a float truncates towards zero.\<close>

definition py_trunc :: "real \<Rightarrow> int" where
  "py_trunc x = (if 0 \<le> x then \<lfloor>x\<rfloor> else \<lceil>x\<rceil>)"

text \<open>
  \<open>xs[a:b]\<close> along the first axis: negative bounds count from the end and both bounds are
  clamped to the length.
\<close>

definition py_clamp :: "int \<Rightarrow> int \<Rightarrow> nat" where
  "py_clamp n i = nat (max 0 (min n (if i < 0 then n + i else i)))"

definition py_slice :: "'a list \<Rightarrow> int \<Rightarrow> int \<Rightarrow> 'a list" where
  "py_slice xs a b =
     (let n = int (length xs); lo = py_clamp n a; hi = py_clamp n b
      in take (hi - lo) (drop lo xs))"

section \<open>Arrays\<close>

text \<open>
  A NumPy array of one or two dimensions. A matrix carries its number of columns, which a
  matrix without rows still has. Samples are real numbers: the rounding of binary64 and of
  the final cast to binary32 is outside the model.
\<close>

datatype 'a ndarray = Vec "'a list" | Mat nat "'a list list"

fun elems :: "'a ndarray \<Rightarrow> 'a list" where
  "elems (Vec xs) = xs"
| "elems (Mat c rows) = concat rows"

fun amap :: "('a \<Rightarrow> 'b) \<Rightarrow> 'a ndarray \<Rightarrow> 'b ndarray" where
  "amap f (Vec xs) = Vec (map f xs)"
| "amap f (Mat c rows) = Mat c (map (map f) rows)"

text \<open>Applying a length-preserving operation along the last axis.\<close>

fun along_last :: "('a list \<Rightarrow> 'a list) \<Rightarrow> 'a ndarray \<Rightarrow> 'a ndarray" where
  "along_last f (Vec xs) = Vec (f xs)"
| "along_last f (Mat c rows) = Mat c (map f rows)"

fun slice_first :: "'a ndarray \<Rightarrow> int \<Rightarrow> int \<Rightarrow> 'a ndarray" where
  "slice_first (Vec xs) a b = Vec (py_slice xs a b)"
| "slice_first (Mat c rows) a b = Mat c (py_slice rows a b)"

text \<open>
  \<open>signal * carrier\<close> with a one-dimensional right operand: NumPy broadcasts along the
  last axis when the two lengths agree or one of them is 1, and raises otherwise.
\<close>

definition bc_ok :: "nat \<Rightarrow> nat \<Rightarrow> bool" where
  "bc_ok n m = (n = m \<or> n = 1 \<or> m = 1)"

definition bc_prod :: "real list \<Rightarrow> real list \<Rightarrow> real list" where
  "bc_prod xs ys =
     (if length xs = length ys then map2 (*) xs ys
      else if length xs = 1 then map ((*) (hd xs)) ys
      else map (\<lambda>x. x * hd ys) xs)"

fun np_mul :: "real ndarray \<Rightarrow> real list \<Rightarrow> error + real ndarray" where
  "np_mul (Vec xs) ys =
     (if bc_ok (length xs) (length ys) then Inr (Vec (bc_prod xs ys)) else Inl ValueError)"
| "np_mul (Mat c rows) ys =
     (if bc_ok c (length ys)
      then Inr (Mat (if c = 1 then length ys else c) (map (\<lambda>r. bc_prod r ys) rows))
      else Inl ValueError)"

text \<open>\<open>np.max\<close> over all elements; an array without elements has no maximum.\<close>

definition np_max :: "real ndarray \<Rightarrow> error + real" where
  "np_max a = (case elems a of [] \<Rightarrow> Inl ValueError | x # xs \<Rightarrow> Inr (fold max xs x))"

text \<open>\<open>np.mean\<close> over all elements (only read where the array has elements).\<close>

definition np_mean :: "real ndarray \<Rightarrow> real" where
  "np_mean a = sum_list (elems a) / real (length (elems a))"

text \<open>
  \<open>np.vstack\<close>: every operand is made two-dimensional (a vector becomes one row), the
  rows are stacked in order. No operand, or operands of different widths, raise.
\<close>

fun atleast_2d :: "'a ndarray \<Rightarrow> nat \<times> 'a list list" where
  "atleast_2d (Vec xs) = (length xs, [xs])"
| "atleast_2d (Mat c rows) = (c, rows)"

definition np_vstack :: "'a ndarray list \<Rightarrow> error + 'a ndarray" where
  "np_vstack arrs =
     (case map atleast_2d arrs of
        [] \<Rightarrow> Inl ValueError
      | (c, rows) # rest \<Rightarrow>
          if list_all (\<lambda>p. fst p = c) rest
          then Inr (Mat c (rows @ concat (map snd rest)))
          else Inl ValueError)"

section \<open>Filters\<close>

text \<open>
  A filter is a cascade of second-order sections, one row
  \<open>(b0, b1, b2, a0, a1, a2)\<close> each, as \<open>scipy.signal\<close> represents it with
  \<open>output='sos'\<close>.
\<close>

record sos_section =
  sos_b0 :: real
  sos_b1 :: real
  sos_b2 :: real
  sos_a0 :: real
  sos_a1 :: real
  sos_a2 :: real

type_synonym sos = "sos_section list"

text \<open>
  One section in transposed direct form II, from the state \<open>(z0, z1)\<close>:
  \<open>y = b0 x + z0\<close>, then \<open>z0 := b1 x - a1 y + z1\<close> and \<open>z1 := b2 x - a2 y\<close>.
\<close>

fun biquad :: "sos_section \<Rightarrow> real \<times> real \<Rightarrow> real list \<Rightarrow> real list" where
  "biquad c (z0, z1) [] = []"
| "biquad c (z0, z1) (x # xs) =
     (let y = sos_b0 c * x + z0
      in y # biquad c (sos_b1 c * x - sos_a1 c * y + z1, sos_b2 c * x - sos_a2 c * y) xs)"

text \<open>The cascade: every section starts at rest and feeds the next one.\<close>

definition cascade :: "sos \<Rightarrow> real list \<Rightarrow> real list" where
  "cascade filt xs = foldl (\<lambda>ys c. biquad c (0, 0) ys) xs filt"

text \<open>
  \<open>scipy.signal.sosfilt(sos, x)\<close> filters along the last axis. It refuses a cascade
  in which some \<open>a0\<close> is not 1. A signal without samples passes through unchanged
  here.
\<close>

definition sosfilt :: "sos \<Rightarrow> real ndarray \<Rightarrow> error + real ndarray" where
  "sosfilt filt x =
     (if list_all (\<lambda>c. sos_a0 c = 1) filt then Inr (along_last (cascade filt) x)
      else Inl ValueError)"

text \<open>
  The arguments of a call \<open>sg.cheby1(5, 4, Wn, btype, output='sos', fs=fs)\<close>. The design
  procedure itself belongs to SciPy; the functions below take it as the parameter
  \<open>cheby1\<close>, which returns the designed filter or raises.
\<close>

datatype btype = Bandpass | Lowpass

record design =
  d_order :: nat
  d_rp :: nat
  d_Wn :: "int list"
  d_btype :: btype
  d_fs :: int

section \<open>ScramblerHelper\<close>

definition standard_carriers :: "int list" where
  "standard_carriers = [2632, 2718, 2868, 3023, 3196, 3339, 3495, 3729]"

text \<open>
  \<open>getfilts(n, fs)\<close>. The loop carries the lower cutoff \<open>s\<close> and the list built so far;
  \<open>step = int((fs / 2) / n)\<close> divides by \<open>n\<close> and so raises for \<open>n = 0\<close>.
\<close>

fun getfilts_loop ::
  "(design \<Rightarrow> error + 'f) \<Rightarrow> int \<Rightarrow> int \<Rightarrow> int list \<Rightarrow> int \<Rightarrow> 'f list \<Rightarrow> error + 'f list" where
  "getfilts_loop cheby1 fs step [] s filts = Inr filts"
| "getfilts_loop cheby1 fs step (b # bs) s filts =
     (let up = (b + 1) * step
      in case cheby1 \<lparr>d_order = 5, d_rp = 4, d_Wn = [s, up - 1], d_btype = Bandpass, d_fs = fs\<rparr> of
           Inl e \<Rightarrow> Inl e
         | Inr f \<Rightarrow> getfilts_loop cheby1 fs step bs up (filts @ [f]))"

definition getfilts :: "(design \<Rightarrow> error + 'f) \<Rightarrow> int \<Rightarrow> int \<Rightarrow> error + 'f list" where
  "getfilts cheby1 n fs =
     (if n = 0 then Inl ZeroDivisionError
      else getfilts_loop cheby1 fs (py_trunc ((real_of_int fs / 2) / real_of_int n))
             (py_range n) 1 [])"

text \<open>
  \<open>spectrum(x, hl)\<close> reads the global name \<open>lb\<close>, which no statement of the module
  binds. The binding is the parameter \<open>lb\<close>: \<open>None\<close> is the module as it is written,
  \<open>Some stft\<close> stands for a module in which \<open>lb.stft\<close> were available.
\<close>

type_synonym stft = "real ndarray \<Rightarrow> int \<Rightarrow> error + complex ndarray"

definition spectrum :: "stft option \<Rightarrow> real ndarray \<Rightarrow> int \<Rightarrow> error + real ndarray" where
  "spectrum lb x hl =
     (case lb of
        None \<Rightarrow> Inl NameError
      | Some stft \<Rightarrow> then_do (stft x hl) (\<lambda>D. Inr (amap cmod D)))"

definition bandspec :: "stft option \<Rightarrow> real ndarray list \<Rightarrow> int \<Rightarrow> error + real ndarray list" where
  "bandspec lb xs hl =
     (let n = int (length xs)
      in if n = 0 then Inl ZeroDivisionError
         else
           let step = py_trunc (real_of_int hl / real_of_int n);
               f = map (\<lambda>i. (i * step, ((i + 1) * step) - 1)) (py_range n)
           in map_result
                (\<lambda>(i, x). then_do (spectrum lb x hl)
                   (\<lambda>D. Inr (slice_first D (fst (f ! i)) (snd (f ! i)))))
                (enumerate 0 xs))"

definition remove_dc :: "real ndarray \<Rightarrow> real ndarray" where
  "remove_dc signal = amap (\<lambda>x. x - np_mean signal) signal"

definition lpfilter :: "(design \<Rightarrow> error + 'f) \<Rightarrow> int \<Rightarrow> int \<Rightarrow> error + 'f" where
  "lpfilter cheby1 cutoff fs =
     cheby1 \<lparr>d_order = 5, d_rp = 4, d_Wn = [cutoff], d_btype = Lowpass, d_fs = fs\<rparr>"

text \<open>\<open>invert\<close>: the first \<open>sosfilt\<close> result is bound to \<open>prefilter\<close> and never read.\<close>

definition invert :: "real ndarray \<Rightarrow> real list \<Rightarrow> sos \<Rightarrow> error + real ndarray" where
  "invert signal carrier filt =
     then_do (sosfilt filt signal) (\<lambda>prefilter.
     then_do (np_mul signal carrier) (\<lambda>inv_signal.
     then_do (sosfilt filt inv_signal) (\<lambda>postfilter.
     Inr postfilter)))"

definition carrier :: "int \<Rightarrow> real list \<Rightarrow> real list" where
  "carrier f t = map (\<lambda>ti. sin (real_of_int f * (2 * pi) * ti)) t"

definition generate_carriers :: "int \<Rightarrow> real list \<Rightarrow> real list list" where
  "generate_carriers num_bands t =
     map (\<lambda>i. carrier (standard_carriers ! nat (i mod int (length standard_carriers))) t)
       (py_range num_bands)"

definition generate_lpfilters :: "(design \<Rightarrow> error + 'f) \<Rightarrow> int \<Rightarrow> int \<Rightarrow> error + 'f list" where
  "generate_lpfilters cheby1 num_bands fs =
     map_result
       (\<lambda>i. lpfilter cheby1 (standard_carriers ! nat (i mod int (length standard_carriers))) fs)
       (py_range num_bands)"

definition bandsplit ::
  "stft option \<Rightarrow> (design \<Rightarrow> error + sos) \<Rightarrow> real ndarray \<Rightarrow> int \<Rightarrow> int \<Rightarrow> error + real ndarray list" where
  "bandsplit lb cheby1 signal num_bands fs =
     then_do (getfilts cheby1 num_bands fs) (\<lambda>filts.
     then_do (map_result (\<lambda>f. sosfilt f signal) filts) (\<lambda>bands.
     bandspec lb bands 1024))"

definition shuffle :: "'a list \<Rightarrow> int list \<Rightarrow> error + 'a list" where
  "shuffle bands book = map_result (\<lambda>i. py_index bands i) book"

definition bandunsplit :: "'a ndarray list \<Rightarrow> error + 'a ndarray" where
  "bandunsplit bands = np_vstack bands"

section \<open>VoiceScrambler: files\<close>

text \<open>
  \<open>read_wav_file\<close>, from the decoded content \<open>(Fs, x)\<close> of the file: a mono recording,
  \<open>Fs\<close> an integer. \<open>np.linspace(0, duration, len(x))\<close> is the time vector.
\<close>

record speech_parameters =
  sp_Fs :: int
  sp_Ts :: real
  sp_duration :: real
  sp_speech :: "real list"
  sp_time :: "real list"

definition np_linspace :: "real \<Rightarrow> real \<Rightarrow> nat \<Rightarrow> real list" where
  "np_linspace start stop num =
     (if num = 1 then [start]
      else map (\<lambda>i. start + real i * ((stop - start) / real (num - 1))) [0..<num])"

definition read_wav_file :: "int \<Rightarrow> real list \<Rightarrow> error + speech_parameters" where
  "read_wav_file Fs x =
     (if Fs = 0 then Inl ZeroDivisionError
      else
        let Ts = 1 / real_of_int Fs;
            duration = real (length x) / real_of_int Fs;
            t = np_linspace 0 duration (length x)
        in Inr \<lparr>sp_Fs = Fs, sp_Ts = Ts, sp_duration = duration, sp_speech = x, sp_time = t\<rparr>)"

text \<open>
  A written sample: \<open>signal / m\<close> is a number when \<open>m\<close> is not zero; dividing by zero
  does not raise in NumPy but yields an infinity or a NaN.
\<close>

datatype fsample = Finite real | NonFinite

definition np_divide :: "real \<Rightarrow> real \<Rightarrow> fsample" where
  "np_divide x m = (if m = 0 then NonFinite else Finite (x / m))"

record wav =
  wav_name :: string
  wav_rate :: int
  wav_data :: "fsample ndarray"

definition write_wav_file :: "real ndarray \<Rightarrow> string \<Rightarrow> int \<Rightarrow> bool \<Rightarrow> error + wav" where
  "write_wav_file signal file Fs invert_flag =
     (let wavfile_out_name =
            (if invert_flag then take (length file - 4) file @ ''scrambled.wav''
             else take (length file - 4) file @ ''descrambled.wav'')
      in then_do (np_max signal) (\<lambda>m.
         Inr \<lparr>wav_name = wavfile_out_name, wav_rate = Fs,
              wav_data = amap (\<lambda>x. np_divide x m) signal\<rparr>))"

section \<open>VoiceScrambler: argument checks\<close>

definition check_mode :: "int \<Rightarrow> int" where
  "check_mode mode = (if mode < 0 \<or> mode > 2 then - 1 else 0)"

definition check_bands :: "int \<Rightarrow> int" where
  "check_bands bands = (if bands < 0 then - 1 else 0)"

section \<open>VoiceScrambler: the rate argument\<close>

text \<open>
  \<open>s.split('/')\<close>: the pieces between the separators, at least one piece.
\<close>

fun py_split :: "char \<Rightarrow> string \<Rightarrow> string list" where
  "py_split sep [] = [[]]"
| "py_split sep (c # cs) =
     (if c = sep then [] # py_split sep cs
      else (case py_split sep cs of [] \<Rightarrow> [[c]] | w # ws \<Rightarrow> (c # w) # ws))"

text \<open>
  \<open>int(s)\<close> of a string, in base 10: white space around the literal is dropped, a sign
  may lead, and single underscores may stand between digits. Strings are byte strings
  here, so only the ASCII digits and the ASCII white space are recognised.
\<close>

definition is_digit :: "char \<Rightarrow> bool" where
  "is_digit c = (48 \<le> (of_char c :: nat) \<and> (of_char c :: nat) \<le> 57)"

definition digit_val :: "char \<Rightarrow> nat" where
  "digit_val c = of_char c - 48"

definition is_space :: "char \<Rightarrow> bool" where
  "is_space c =
     ((9 \<le> (of_char c :: nat) \<and> (of_char c :: nat) \<le> 13) \<or>
      (28 \<le> (of_char c :: nat) \<and> (of_char c :: nat) \<le> 32))"

definition py_strip :: "string \<Rightarrow> string" where
  "py_strip s = rev (dropWhile is_space (rev (dropWhile is_space s)))"

fun digits_value :: "string \<Rightarrow> nat \<Rightarrow> nat option" where
  "digits_value [] acc = Some acc"
| "digits_value [c] acc = (if is_digit c then Some (10 * acc + digit_val c) else None)"
| "digits_value (c # d # ds) acc =
     (if c = CHR ''_''
      then (if is_digit d then digits_value ds (10 * acc + digit_val d) else None)
      else if is_digit c then digits_value (d # ds) (10 * acc + digit_val c)
      else None)"

definition unsigned_value :: "string \<Rightarrow> nat option" where
  "unsigned_value s =
     (case s of
        [] \<Rightarrow> None
      | d # ds \<Rightarrow> if is_digit d then digits_value ds (digit_val d) else None)"

definition py_int :: "string \<Rightarrow> error + int" where
  "py_int s =
     (case py_strip s of
        [] \<Rightarrow> Inl ValueError
      | c # cs \<Rightarrow>
          (case (if c = CHR ''-'' then unsigned_value cs
                 else if c = CHR ''+'' then unsigned_value cs
                 else unsigned_value (c # cs)) of
             None \<Rightarrow> Inl ValueError
           | Some n \<Rightarrow> Inr (if c = CHR ''-'' then - int n else int n)))"

text \<open>
  \<open>determine_rate\<close>. The value is the integer 0 or -1, or the quotient
  \<open>seconds / num_changes\<close>; all three are read as real numbers.
\<close>

definition determine_rate :: "string \<Rightarrow> real \<Rightarrow> error + real" where
  "determine_rate rate_fractional duration =
     then_do (py_index (py_split CHR ''/'' rate_fractional) 0) (\<lambda>p0.
     then_do (py_int p0) (\<lambda>num_changes.
     then_do (py_index (py_split CHR ''/'' rate_fractional) 1) (\<lambda>p1.
     then_do (py_int p1) (\<lambda>seconds.
       if num_changes = 0 \<or> seconds = 0 then Inr 0
       else
         let rate = real_of_int seconds / real_of_int num_changes
         in if rate < 0.5 then Inr (- 1)
            else if rate \<ge> duration then Inr (- 1)
            else Inr rate))))"

definition determine_num_permutations :: "real \<Rightarrow> real \<Rightarrow> int" where
  "determine_num_permutations rate duration =
     (if rate = 0 then 1 else py_trunc (duration / rate))"

text \<open>The decimal literal of a natural number, as \<open>str\<close> prints it.\<close>

definition digit_char :: "nat \<Rightarrow> char" where
  "digit_char d = char_of (48 + d)"

fun decimal :: "nat \<Rightarrow> string" where
  "decimal n = (if n < 10 then [digit_char n] else decimal (n div 10) @ [digit_char (n mod 10)])"

declare decimal.simps [simp del]

section \<open>VoiceScrambler: the pipeline\<close>

text \<open>
  \<open>mode_string\<close> is assigned in the branches for the modes 0, 1 and 2 only and read by
  the format call that follows them, whether or not \<open>debug\<close> is set.
\<close>

definition mode_string :: "int \<Rightarrow> error + string" where
  "mode_string mode =
     (if mode = 0 then Inr ''Direct''
      else if mode = 1 then Inr ''Gap Detection''
      else if mode = 2 then Inr ''Combo''
      else Inl UnboundLocalError)"

text \<open>The band split of both passes: \<open>bandsplit\<close> for more than one band, else the signal alone.\<close>

definition split_bands ::
  "stft option \<Rightarrow> (design \<Rightarrow> error + sos) \<Rightarrow> real ndarray \<Rightarrow> int \<Rightarrow> int \<Rightarrow> error + real ndarray list" where
  "split_bands lb cheby1 speech_dc_removed bands Fs =
     (if bands > 1 then bandsplit lb cheby1 speech_dc_removed bands Fs
      else Inr [speech_dc_removed])"

text \<open>
  The inversion loop of both passes, over \<open>range(0, len(speech_band_split))\<close>:
  \<open>carriers[i]\<close> and \<open>lpfs[i]\<close> raise when the list is too short.
\<close>

fun invert_loop ::
  "nat list \<Rightarrow> real ndarray list \<Rightarrow> real list list \<Rightarrow> sos list \<Rightarrow> real ndarray list \<Rightarrow>
   error + real ndarray list" where
  "invert_loop [] speech_band_split carriers lpfs inverted = Inr inverted"
| "invert_loop (i # rest) speech_band_split carriers lpfs inverted =
     then_do (py_index carriers (int i)) (\<lambda>c.
     then_do (py_index lpfs (int i)) (\<lambda>f.
     then_do (invert (speech_band_split ! i) c f) (\<lambda>y.
     invert_loop rest speech_band_split carriers lpfs (inverted @ [y]))))"

definition invert_bands ::
  "real ndarray list \<Rightarrow> real list list \<Rightarrow> sos list \<Rightarrow> error + real ndarray list" where
  "invert_bands speech_band_split carriers lpfs =
     invert_loop [0..<length speech_band_split] speech_band_split carriers lpfs []"

text \<open>
  The recombination of both passes: the branch for more than one band is \<open>pass\<close> and
  leaves the result variable unassigned (\<open>None\<close>).
\<close>

definition recombine :: "int \<Rightarrow> real ndarray list \<Rightarrow> error + real ndarray option" where
  "recombine bands inverted =
     (if bands > 1 then Inr None
      else then_do (py_index inverted 0) (\<lambda>b. Inr (Some b)))"

text \<open>Reading a local variable that may be unassigned.\<close>

definition read_local :: "'a option \<Rightarrow> error + 'a" where
  "read_local v = (case v of None \<Rightarrow> Inl UnboundLocalError | Some x \<Rightarrow> Inr x)"

text \<open>
  The scrambling pass of \<open>scrambler\<close>, up to the assignment of \<open>speech_scrambled\<close>. It
  also yields the carriers and low-pass filters, which the descrambling pass reuses.
  The debug output goes to the console and is not part of the model.
\<close>

definition scramble_pass ::
  "stft option \<Rightarrow> (design \<Rightarrow> error + sos) \<Rightarrow> int \<Rightarrow> speech_parameters \<Rightarrow> real \<Rightarrow> int \<Rightarrow>
   error + (real list list \<times> sos list \<times> real ndarray option)" where
  "scramble_pass lb cheby1 mode sp rate bands =
     then_do (mode_string mode) (\<lambda>ms.
     let speech_dc_removed = remove_dc (Vec (sp_speech sp));
         num_perms = determine_num_permutations rate (sp_duration sp)
     in
     then_do (split_bands lb cheby1 speech_dc_removed bands (sp_Fs sp)) (\<lambda>speech_band_split.
     let carriers = generate_carriers bands (sp_time sp)
     in
     then_do (generate_lpfilters cheby1 bands (sp_Fs sp)) (\<lambda>lpfs.
     then_do (invert_bands speech_band_split carriers lpfs) (\<lambda>speech_inverted_bands.
     then_do (recombine bands speech_inverted_bands) (\<lambda>speech_scrambled.
     Inr (carriers, lpfs, speech_scrambled))))))"

text \<open>The descrambling pass, up to the assignment of \<open>speech_descrambled\<close>.\<close>

definition descramble_pass ::
  "stft option \<Rightarrow> (design \<Rightarrow> error + sos) \<Rightarrow> int \<Rightarrow> int \<Rightarrow> real list list \<Rightarrow> sos list \<Rightarrow>
   real ndarray \<Rightarrow> error + real ndarray option" where
  "descramble_pass lb cheby1 Fs bands carriers lpfs speech_scrambled =
     (let speech_dc_removed = remove_dc speech_scrambled
      in
      then_do (split_bands lb cheby1 speech_dc_removed bands Fs) (\<lambda>speech_band_split.
      then_do (invert_bands speech_band_split carriers lpfs) (\<lambda>speech_deinverted_bands.
      recombine bands speech_deinverted_bands)))"

text \<open>
  \<open>scrambler\<close>: the files written, in order, and the exception that ended the run, if
  any. A file written before an exception stays written.
\<close>

definition scrambler ::
  "stft option \<Rightarrow> (design \<Rightarrow> error + sos) \<Rightarrow> int \<Rightarrow> string \<Rightarrow> speech_parameters \<Rightarrow> real \<Rightarrow> int \<Rightarrow>
   bool \<Rightarrow> wav list \<times> error option" where
  "scrambler lb cheby1 mode filename sp rate bands debug =
     (case scramble_pass lb cheby1 mode sp rate bands of
        Inl e \<Rightarrow> ([], Some e)
      | Inr (carriers, lpfs, scrambled_var) \<Rightarrow>
          (case then_do (read_local scrambled_var)
                  (\<lambda>speech_scrambled. write_wav_file speech_scrambled filename (sp_Fs sp) True) of
             Inl e \<Rightarrow> ([], Some e)
           | Inr w1 \<Rightarrow>
               (case then_do (read_local scrambled_var) (\<lambda>speech_scrambled.
                       descramble_pass lb cheby1 (sp_Fs sp) bands carriers lpfs speech_scrambled) of
                  Inl e \<Rightarrow> ([w1], Some e)
                | Inr descrambled_var \<Rightarrow>
                    (case then_do (read_local descrambled_var)
                            (\<lambda>speech_descrambled.
                               write_wav_file speech_descrambled filename (sp_Fs sp) False) of
                       Inl e \<Rightarrow> ([w1], Some e)
                     | Inr w2 \<Rightarrow> ([w1, w2], None)))))"

text \<open>
  \<open>main\<close>, from the parsed arguments and the decoded content \<open>(Fs, x)\<close> of the input
  file: the three checks, then \<open>scrambler\<close> unless one of them failed.
\<close>

definition main ::
  "stft option \<Rightarrow> (design \<Rightarrow> error + sos) \<Rightarrow> int \<Rightarrow> string \<Rightarrow> int \<Rightarrow> real list \<Rightarrow> string \<Rightarrow> int \<Rightarrow>
   int \<Rightarrow> wav list \<times> error option" where
  "main lb cheby1 mode file Fs x rate_arg band debug_arg =
     (case read_wav_file Fs x of
        Inl e \<Rightarrow> ([], Some e)
      | Inr sp \<Rightarrow>
          (case determine_rate rate_arg (sp_duration sp) of
             Inl e \<Rightarrow> ([], Some e)
           | Inr rate \<Rightarrow>
               let band_check = check_bands band;
                   mode_check = check_mode mode
               in if rate < 0 \<or> band_check < 0 \<or> mode_check < 0 then ([], None)
                  else scrambler lb cheby1 mode file sp rate band (debug_arg \<noteq> 0)))"

section \<open>The round-trip tolerance of the specification\<close>

text \<open>
  This predicate follows the words of the specification, not the code: a recovered
  buffer is within the tolerance of a reference signal when both have the same length and
  every recovered sample is a number whose distance to the reference sample is below the
  tolerance.
\<close>

definition within_tolerance :: "real \<Rightarrow> real list \<Rightarrow> fsample list \<Rightarrow> bool" where
  "within_tolerance tol reference recovered =
     list_all2 (\<lambda>r v. case v of Finite y \<Rightarrow> \<bar>y - r\<bar> < tol | NonFinite \<Rightarrow> False)
       reference recovered"

section \<open>Sequencing lemmas\<close>

lemma map_result_total:
  "(\<And>x. x \<in> set xs \<Longrightarrow> f x = Inr (g x)) \<Longrightarrow> map_result f xs = Inr (map g xs)"
  by (induction xs) simp_all


section \<open>Carrier inversion\<close>


section \<open>Reordering and recombining bands\<close>

lemma shuffle_in_range:
  assumes "\<forall>i \<in> set book. 0 \<le> i \<and> i < int (length bands)"
  shows "shuffle bands book = Inr (map (\<lambda>i. bands ! nat i) book)"
  unfolding shuffle_def using assms
  by (intro map_result_total) (simp add: py_index_def)

lemma np_vstack_vectors:
  assumes "rows \<noteq> []" and "\<forall>r \<in> set rows. length r = n"
  shows "np_vstack (map Vec rows) = Inr (Mat n rows)"
proof -
  obtain r rest where rows: "rows = r # rest" using assms(1) by (cases rows) auto
  have "concat (map snd (map atleast_2d (map Vec rest))) = rest"
    by (induction rest) simp_all
  moreover have "list_all (\<lambda>p. fst p = n) (map atleast_2d (map Vec rest))"
    using assms(2) rows by (simp add: list_all_iff)
  ultimately show ?thesis
    using assms(2) rows by (simp add: np_vstack_def)
qed

text \<open>
  C2, as stated, fails: \<open>shuffle\<close> followed by \<open>bandunsplit\<close> on the two bands
  \<open>[1, 2]\<close> and \<open>[3, 4]\<close> with the permutation \<open>[1, 0]\<close> yields the 2-by-2 matrix with
  the rows \<open>[3, 4]\<close> and \<open>[1, 2]\<close>, not the sample-wise sum \<open>[3 + 1, 4 + 2]\<close>.
\<close>

theorem combine_does_not_sum:
  "then_do (shuffle [Vec [1, 2], Vec [3, 4 :: real]] [1, 0]) bandunsplit =
     Inr (Mat 2 [[3, 4], [1, 2]]) \<and>
   then_do (shuffle [Vec [1, 2], Vec [3, 4 :: real]] [1, 0]) bandunsplit \<noteq>
     Inr (Vec [3 + 1, 4 + 2])"
  by (simp add: shuffle_def py_index_def then_do_def bandunsplit_def np_vstack_def)

text \<open>
  C2, amended: for a non-empty permutation \<open>book\<close> of indices into the bands, all bands
  having \<open>n\<close> samples, \<open>shuffle\<close> followed by \<open>bandunsplit\<close> stacks the reordered bands:
  the result is the matrix of \<open>n\<close> columns whose row \<open>i\<close> is \<open>bands[book[i]]\<close>. It has
  one row per band; the bands are not summed.
\<close>

theorem combine_stacks_reordered_bands:
  assumes "book \<noteq> []"
    and "\<forall>i \<in> set book. 0 \<le> i \<and> i < int (length bands)"
    and "\<forall>b \<in> set bands. length b = n"
  shows "then_do (shuffle (map Vec bands) book) bandunsplit =
           Inr (Mat n (map (\<lambda>i. bands ! nat i) book))"
proof -
  have sh: "shuffle (map Vec bands) book = Inr (map Vec (map (\<lambda>i. bands ! nat i) book))"
  proof -
    have "map (\<lambda>i. map Vec bands ! nat i) book = map Vec (map (\<lambda>i. bands ! nat i) book)"
      using assms(2) by (auto simp: nat_less_iff)
    then show ?thesis
      using assms(2) shuffle_in_range [of book "map Vec bands"] by simp
  qed
  have "\<forall>r \<in> set (map (\<lambda>i. bands ! nat i) book). length r = n"
    using assms(2,3) by auto
  then have st: "np_vstack (map Vec (map (\<lambda>i. bands ! nat i) book)) =
      Inr (Mat n (map (\<lambda>i. bands ! nat i) book))"
    using assms(1) by (intro np_vstack_vectors) simp_all
  show ?thesis
    using st by (simp add: sh then_do_def bandunsplit_def)
qed

text \<open>The amended C2 at three bands of two samples and the permutation \<open>[2, 0, 1]\<close>.\<close>

theorem combine_stacks_reordered_bands_witness:
  "then_do (shuffle (map Vec [[1, 2], [3, 4], [5, 6]]) [2, 0, 1]) bandunsplit =
     Inr (Mat 2 [[5, 6], [1, 2], [3, 4 :: real]])"
  using combine_stacks_reordered_bands [of "[2, 0, 1]" "[[1, 2], [3, 4], [5, 6 :: real]]" 2]
  by simp

section \<open>Output normalization\<close>

text \<open>
  C4 at the buffer \<open>[1, -2]\<close>: \<open>np.max\<close> is 1, not the maximum absolute value 2, so the
  written samples are \<open>1\<close> and \<open>-2\<close>, and \<open>-2\<close> lies outside \<open>[-1, 1]\<close>.
\<close>

theorem write_wav_file_divides_by_signed_max:
  "write_wav_file (Vec [1, - 2]) ''speech_test.wav'' 8000 True =
     Inr \<lparr>wav_name = ''speech_testscrambled.wav'', wav_rate = 8000,
          wav_data = Vec [Finite 1, Finite (- 2)]\<rparr>"
  by (simp add: write_wav_file_def np_max_def then_do_def np_divide_def)

section \<open>Rate validation\<close>

lemma py_split_no_sep: "sep \<notin> set a \<Longrightarrow> py_split sep a = [a]"
  by (induction a) auto

lemma py_split_at_sep: "sep \<notin> set a \<Longrightarrow> py_split sep (a @ sep # b) = a # py_split sep b"
  by (induction a) auto

lemma py_split_two:
  "sep \<notin> set a \<Longrightarrow> sep \<notin> set b \<Longrightarrow> py_split sep (a @ sep # b) = [a, b]"
  by (simp add: py_split_at_sep py_split_no_sep)

lemma is_digit_digit_char: "d < 10 \<Longrightarrow> is_digit (digit_char d)"
  by (simp add: is_digit_def digit_char_def of_char_of)

lemma digit_val_digit_char: "d < 10 \<Longrightarrow> digit_val (digit_char d) = d"
  by (simp add: digit_val_def digit_char_def of_char_of)

lemma decimal_digits: "c \<in> set (decimal n) \<Longrightarrow> is_digit c"
proof (induction n rule: decimal.induct)
  case (1 n)
  show ?case
  proof (cases "n < 10")
    case True
    with "1.prems" show ?thesis
      by (subst (asm) decimal.simps) (simp add: is_digit_digit_char)
  next
    case False
    with "1.prems" "1.IH" show ?thesis
      by (subst (asm) decimal.simps) (auto simp: is_digit_digit_char)
  qed
qed

lemma decimal_nonempty: "decimal n \<noteq> []"
  by (subst decimal.simps) simp

lemma digits_value_plain:
  "\<forall>c \<in> set ds. is_digit c \<Longrightarrow>
   digits_value ds acc = Some (foldl (\<lambda>a c. 10 * a + digit_val c) acc ds)"
proof (induction ds acc rule: digits_value.induct)
  case (3 c d ds acc)
  then have "c \<noteq> CHR ''_''" by (auto simp: is_digit_def)
  with 3 show ?case by simp
qed simp_all

lemma unsigned_value_plain:
  "ds \<noteq> [] \<Longrightarrow> \<forall>c \<in> set ds. is_digit c \<Longrightarrow>
   unsigned_value ds = Some (foldl (\<lambda>a c. 10 * a + digit_val c) 0 ds)"
  by (cases ds) (simp_all add: unsigned_value_def digits_value_plain)

lemma foldl_decimal: "foldl (\<lambda>a c. 10 * a + digit_val c) 0 (decimal n) = n"
proof (induction n rule: decimal.induct)
  case (1 n)
  show ?case
  proof (cases "n < 10")
    case True
    then show ?thesis
      by (subst decimal.simps) (simp add: digit_val_digit_char)
  next
    case False
    then have "foldl (\<lambda>a c. 10 * a + digit_val c) 0 (decimal n) =
        10 * foldl (\<lambda>a c. 10 * a + digit_val c) 0 (decimal (n div 10)) +
        digit_val (digit_char (n mod 10))"
      by (subst decimal.simps) simp
    also have "\<dots> = 10 * (n div 10) + digit_val (digit_char (n mod 10))"
      using False "1.IH" by simp
    also have "\<dots> = n"
      by (simp add: digit_val_digit_char)
    finally show ?thesis .
  qed
qed

lemma digit_not_space: "is_digit c \<Longrightarrow> \<not> is_space c"
  by (auto simp: is_digit_def is_space_def)

lemma dropWhile_none: "\<forall>c \<in> set s. \<not> P c \<Longrightarrow> dropWhile P s = s"
  by (cases s) simp_all

lemma py_strip_plain: "\<forall>c \<in> set s. \<not> is_space c \<Longrightarrow> py_strip s = s"
  by (simp add: py_strip_def dropWhile_none)

lemma py_int_decimal: "py_int (decimal n) = Inr (int n)"
proof -
  have dig: "\<forall>c \<in> set (decimal n). is_digit c" by (simp add: decimal_digits)
  then have strip: "py_strip (decimal n) = decimal n"
    by (intro py_strip_plain) (auto dest: digit_not_space)
  obtain c cs where cs: "decimal n = c # cs"
    using decimal_nonempty [of n] by (cases "decimal n") auto
  with dig have "is_digit c" by simp
  then have sign: "c \<noteq> CHR ''-''" "c \<noteq> CHR ''+''" by (auto simp: is_digit_def)
  have "unsigned_value (c # cs) = Some n"
    using unsigned_value_plain [of "decimal n"] dig cs foldl_decimal [of n] by simp
  with strip cs sign show ?thesis by (simp add: py_int_def)
qed

lemma slash_not_digit: "CHR ''/'' \<notin> set (decimal n)"
  using decimal_digits [of "CHR ''/''" n] by (auto simp: is_digit_def)

lemma determine_rate_decimal:
  "determine_rate (decimal c @ CHR ''/'' # decimal s) duration =
     (if c = 0 \<or> s = 0 then Inr 0
      else if real s / real c < 1 / 2 \<or> duration \<le> real s / real c then Inr (- 1)
      else Inr (real s / real c))"
  by (simp add: determine_rate_def py_split_two slash_not_digit py_index_def then_do_def
      py_int_decimal Let_def)

lemma decimal_small:
  "decimal 0 = ''0''" "decimal (Suc 0) = ''1''" "decimal 2 = ''2''" "decimal 3 = ''3''"
  by code_simp+



section \<open>Band-count validation\<close>

lemma py_range_nonpos: "n \<le> 0 \<Longrightarrow> py_range n = []"
  by (simp add: py_range_def)

text \<open>
  C5, as stated, fails: \<open>check_bands\<close> accepts the band count 0, so that \<open>main\<close> goes on
  to run \<open>scrambler\<close> (which then finds no carrier and raises \<open>IndexError\<close>); and
  \<open>getfilts\<close> returns the empty filter list for a negative count, whatever the design
  procedure is.
\<close>

theorem band_count_zero_accepted:
  "check_bands 0 = 0 \<and>
   (\<forall>lb cheby1. main lb cheby1 0 ''speech_test.wav'' 8000 [1, - 1] ''0/0'' 0 0 =
       ([], Some IndexError)) \<and>
   (\<forall>cheby1 :: design \<Rightarrow> error + sos. getfilts cheby1 (- 1) 8000 = Inr [])"
proof (intro conjI allI)
  fix lb :: "stft option" and cheby1 :: "design \<Rightarrow> error + sos"
  have "determine_rate ''0/0'' r = Inr 0" for r
    using determine_rate_decimal [of 0 0 r] by (simp add: decimal_small)
  moreover have "scrambler lb cheby1 0 ''speech_test.wav'' sp 0 0 False = ([], Some IndexError)" for sp
    by (simp add: scrambler_def scramble_pass_def mode_string_def split_bands_def
        generate_carriers_def generate_lpfilters_def py_range_def invert_bands_def py_index_def
        then_do_def Let_def)
  ultimately show "main lb cheby1 0 ''speech_test.wav'' 8000 [1, - 1] ''0/0'' 0 0 =
       ([], Some IndexError)"
    by (simp add: main_def read_wav_file_def check_bands_def check_mode_def Let_def)
qed (simp_all add: check_bands_def getfilts_def py_range_def)

text \<open>
  C5, amended: \<open>check_bands\<close> returns the failure value -1 exactly for the negative band
  counts, and for those \<open>main\<close> returns without running \<open>scrambler\<close>; building the
  filter bank for the count 0 fails with a division by zero, and for a negative count it
  returns the empty list without designing any filter.
\<close>

theorem band_count_validation:
  "(check_bands n = - 1 \<longleftrightarrow> n < 0) \<and>
   (check_bands n \<noteq> - 1 \<longrightarrow> check_bands n = 0) \<and>
   (n < 0 \<longrightarrow>
      main lb cheby1 mode file Fs x rate_arg n debug_arg =
        (case read_wav_file Fs x of
           Inl e \<Rightarrow> ([], Some e)
         | Inr sp \<Rightarrow>
             (case determine_rate rate_arg (sp_duration sp) of
                Inl e \<Rightarrow> ([], Some e)
              | Inr rate \<Rightarrow> ([], None)))) \<and>
   getfilts cheby1' 0 fs = Inl ZeroDivisionError \<and>
   (n < 0 \<longrightarrow> getfilts cheby1' n fs = Inr [])"
  by (simp add: check_bands_def getfilts_def py_range_nonpos main_def Let_def
      split: sum.splits)

text \<open>The amended C5 at the band counts -3, 0 and 2.\<close>

theorem band_count_validation_witness:
  "check_bands (- 3) = - 1 \<and> check_bands 0 = 0 \<and> check_bands 2 = 0 \<and>
   main None (\<lambda>d. Inl ValueError) 0 ''speech_test.wav'' 8000 [1, - 1] ''0/0'' (- 3) 0 = ([], None) \<and>
   getfilts (\<lambda>d. Inr (d_Wn d)) 0 8000 = Inl ZeroDivisionError \<and>
   getfilts (\<lambda>d. Inr (d_Wn d)) (- 3) 8000 = Inr []"
proof -
  have "determine_rate ''0/0'' r = Inr 0" for r
    using determine_rate_decimal [of 0 0 r] by (simp add: decimal_small)
  then show ?thesis
    using band_count_validation [of "- 3" None "\<lambda>d. Inl ValueError" 0 "''speech_test.wav''" 8000
        "[1, - 1]" "''0/0''" 0 "\<lambda>d. Inr (d_Wn d)" 8000]
      band_count_validation [of 0 None "\<lambda>d. Inl ValueError" 0 "''speech_test.wav''" 8000
        "[1, - 1]" "''0/0''" 0 "\<lambda>d. Inr (d_Wn d)" 8000]
      band_count_validation [of 2 None "\<lambda>d. Inl ValueError" 0 "''speech_test.wav''" 8000
        "[1, - 1]" "''0/0''" 0 "\<lambda>d. Inr (d_Wn d)" 8000]
    by (simp add: check_bands_def read_wav_file_def Let_def)
qed

section \<open>Filter bank\<close>

lemma map_result_cong:
  "(\<And>x. x \<in> set xs \<Longrightarrow> f x = g x) \<Longrightarrow> map_result f xs = map_result g xs"
  by (induction xs) (auto split: sum.splits)


lemma getfilts_loop_closed:
  "getfilts_loop cheby1 fs step (map int [k..<m]) s acc =
     then_do
       (map_result
          (\<lambda>b. cheby1 \<lparr>d_order = 5, d_rp = 4,
                       d_Wn = [if b = k then s else int b * step, (int b + 1) * step - 1],
                       d_btype = Bandpass, d_fs = fs\<rparr>)
          [k..<m])
       (\<lambda>filts. Inr (acc @ filts))"
proof (induction "m - k" arbitrary: k s acc)
  case 0
  then show ?case by (simp add: then_do_def)
next
  case (Suc d)
  then have km: "k < m" and d: "d = m - Suc k" by simp_all
  have split: "[k..<m] = k # [Suc k..<m]" using km by (simp add: upt_conv_Cons)
  let ?D = "\<lambda>k s b. \<lparr>d_order = 5, d_rp = 4,
                       d_Wn = [if b = k then s else int b * step, (int b + 1) * step - 1],
                       d_btype = Bandpass, d_fs = fs\<rparr>"
  have same: "map_result (\<lambda>b. cheby1 (?D (Suc k) ((int k + 1) * step) b)) [Suc k..<m] =
              map_result (\<lambda>b. cheby1 (?D k s b)) [Suc k..<m]"
    by (rule map_result_cong) (auto simp: algebra_simps)
  show ?case
  proof (cases "cheby1 (?D k s k)")
    case (Inl e)
    then show ?thesis by (simp add: split then_do_def Let_def)
  next
    case (Inr f)
    have "getfilts_loop cheby1 fs step (map int [k..<m]) s acc =
          getfilts_loop cheby1 fs step (map int [Suc k..<m]) ((int k + 1) * step) (acc @ [f])"
      using Inr by (simp add: split Let_def)
    also have "\<dots> = then_do (map_result (\<lambda>b. cheby1 (?D (Suc k) ((int k + 1) * step) b)) [Suc k..<m])
                       (\<lambda>filts. Inr ((acc @ [f]) @ filts))"
      using Suc.hyps(1) [OF d] .
    also have "\<dots> = then_do (map_result (\<lambda>b. cheby1 (?D k s b)) [k..<m]) (\<lambda>filts. Inr (acc @ filts))"
      unfolding same using Inr
      by (cases "map_result (\<lambda>b. cheby1 (?D k s b)) [Suc k..<m]") (simp_all add: split then_do_def)
    finally show ?thesis .
  qed
qed






section \<open>Filters, carriers and the single-band run\<close>

lemma biquad_length: "length (biquad c (z0, z1) xs) = length xs"
  by (induction xs arbitrary: z0 z1) (simp_all add: Let_def)

lemma cascade_length: "length (cascade filt xs) = length xs"
  unfolding cascade_def by (induction filt arbitrary: xs) (simp_all add: biquad_length)

lemma biquad_rest_zero: "biquad c (0, 0) (0 # xs) = 0 # biquad c (0, 0) xs"
  by simp

lemma cascade_zero_first: "cascade filt (0 # xs) = 0 # cascade filt xs"
  unfolding cascade_def by (induction filt arbitrary: xs) simp_all

lemma np_linspace_length: "length (np_linspace a b n) = n"
  by (simp add: np_linspace_def)

lemma np_linspace_first: "0 < n \<Longrightarrow> \<exists>ts. np_linspace 0 b n = 0 # ts"
  by (cases "n = 1") (simp_all add: np_linspace_def upt_conv_Cons)

lemma carrier_length: "length (carrier f t) = length t"
  by (simp add: carrier_def)

lemma carrier_zero_first: "carrier f (0 # t) = 0 # carrier f t"
  by (simp add: carrier_def)

lemma remove_dc_Vec: "remove_dc (Vec xs) = Vec (map (\<lambda>x. x - np_mean (Vec xs)) xs)"
  by (simp add: remove_dc_def)

lemma invert_Vec:
  assumes "list_all (\<lambda>c. sos_a0 c = 1) filt" and "length xs = length cs"
  shows "invert (Vec xs) cs filt = Inr (Vec (cascade filt (map2 (*) xs cs)))"
  using assms by (simp add: invert_def sosfilt_def then_do_def bc_ok_def bc_prod_def)

lemma invert_Vec_zero_first:
  assumes "list_all (\<lambda>c. sos_a0 c = 1) filt" and "length xs = length cs"
  shows "invert (Vec (x # xs)) (0 # cs) filt = Inr (Vec (0 # cascade filt (map2 (*) xs cs)))"
  using assms invert_Vec [of filt "x # xs" "0 # cs"] by (simp add: cascade_zero_first)

lemma write_wav_file_Vec:
  "write_wav_file (Vec (x # xs)) file Fs flag =
     Inr \<lparr>wav_name = (if flag then take (length file - 4) file @ ''scrambled.wav''
                       else take (length file - 4) file @ ''descrambled.wav''),
          wav_rate = Fs,
          wav_data = Vec (map (\<lambda>v. np_divide v (fold max xs x)) (x # xs))\<rparr>"
  by (simp add: write_wav_file_def np_max_def then_do_def)

lemma scrambler_single_band:
  assumes "mode \<in> {0, 1, 2}"
    and "lpfilter cheby1 2632 (sp_Fs sp) = Inr f"
    and "invert (remove_dc (Vec (sp_speech sp))) (carrier 2632 (sp_time sp)) f = Inr s"
    and "write_wav_file s filename (sp_Fs sp) True = Inr w1"
    and "invert (remove_dc s) (carrier 2632 (sp_time sp)) f = Inr d"
    and "write_wav_file d filename (sp_Fs sp) False = Inr w2"
  shows "scramble_pass lb cheby1 mode sp rate 1 = Inr ([carrier 2632 (sp_time sp)], [f], Some s)"
    and "descramble_pass lb cheby1 (sp_Fs sp) 1 [carrier 2632 (sp_time sp)] [f] s = Inr (Some d)"
    and "scrambler lb cheby1 mode filename sp rate 1 debug = ([w1, w2], None)"
proof -
  have ms: "\<exists>ms. mode_string mode = Inr ms" using assms(1) by (auto simp: mode_string_def)
  show 1: "scramble_pass lb cheby1 mode sp rate 1 = Inr ([carrier 2632 (sp_time sp)], [f], Some s)"
    using ms assms(2,3)
    by (auto simp: scramble_pass_def split_bands_def generate_carriers_def generate_lpfilters_def
        invert_bands_def recombine_def py_range_def py_index_def then_do_def
        standard_carriers_def Let_def)
  show 2: "descramble_pass lb cheby1 (sp_Fs sp) 1 [carrier 2632 (sp_time sp)] [f] s = Inr (Some d)"
    using assms(5)
    by (simp add: descramble_pass_def split_bands_def invert_bands_def recombine_def
        py_index_def then_do_def Let_def)
  show "scrambler lb cheby1 mode filename sp rate 1 debug = ([w1, w2], None)"
    using assms(4,6) by (simp add: scrambler_def 1 2 read_local_def then_do_def)
qed

lemma read_wav_file_fields:
  assumes "read_wav_file Fs x = Inr sp"
  shows "sp_Fs sp = Fs" "sp_speech sp = x"
    "sp_time sp = np_linspace 0 (real (length x) / real_of_int Fs) (length x)"
  using assms by (auto simp: read_wav_file_def Let_def split: if_splits)

lemma single_band_run:
  assumes "read_wav_file Fs x = Inr sp" and "x \<noteq> []" and "mode \<in> {0, 1, 2}"
    and "lpfilter cheby1 2632 Fs = Inr f" and "list_all (\<lambda>c. sos_a0 c = 1) f"
  shows "\<exists>sl dl w1 w2.
           length sl + 1 = length x \<and> length dl + 1 = length x \<and>
           invert (remove_dc (Vec x)) (carrier 2632 (sp_time sp)) f = Inr (Vec (0 # sl)) \<and>
           invert (remove_dc (Vec (0 # sl))) (carrier 2632 (sp_time sp)) f = Inr (Vec (0 # dl)) \<and>
           write_wav_file (Vec (0 # sl)) filename Fs True = Inr w1 \<and>
           write_wav_file (Vec (0 # dl)) filename Fs False = Inr w2 \<and>
           wav_data w2 = Vec (map (\<lambda>v. np_divide v (fold max dl 0)) (0 # dl)) \<and>
           scramble_pass lb cheby1 mode sp rate 1 =
             Inr ([carrier 2632 (sp_time sp)], [f], Some (Vec (0 # sl))) \<and>
           scrambler lb cheby1 mode filename sp rate 1 debug = ([w1, w2], None)"
proof -
  note sp = read_wav_file_fields [OF assms(1)]
  obtain x0 xr where x: "x = x0 # xr" using assms(2) by (cases x) auto
  obtain ts where ts: "sp_time sp = 0 # ts"
    using np_linspace_first [of "length x" "real (length x) / real_of_int Fs"] assms(2) sp(3)
    by auto
  have "length (sp_time sp) = length x"
    unfolding sp(3) by (rule np_linspace_length)
  then have lts: "length ts = length xr"
    unfolding ts x by simp
  let ?c = "carrier 2632 (sp_time sp)"
  have c: "?c = 0 # carrier 2632 ts" by (simp add: ts carrier_zero_first)
  define y where "y = map (\<lambda>v. v - np_mean (Vec x)) xr"
  define sl where "sl = cascade f (map2 (*) y (carrier 2632 ts))"
  have s: "invert (remove_dc (Vec x)) ?c f = Inr (Vec (0 # sl))"
    unfolding c remove_dc_Vec x list.map sl_def y_def
    by (rule invert_Vec_zero_first) (simp_all add: assms(5) lts carrier_length)
  have lsl: "length sl = length xr"
    by (simp add: sl_def y_def cascade_length carrier_length lts)
  define z where "z = map (\<lambda>v. v - np_mean (Vec (0 # sl))) sl"
  define dl where "dl = cascade f (map2 (*) z (carrier 2632 ts))"
  have d: "invert (remove_dc (Vec (0 # sl))) ?c f = Inr (Vec (0 # dl))"
    unfolding c remove_dc_Vec list.map dl_def z_def
    by (rule invert_Vec_zero_first) (simp_all add: assms(5) lts lsl carrier_length)
  have ldl: "length dl = length xr"
    by (simp add: dl_def z_def cascade_length carrier_length lts lsl)
  obtain w1 where w1: "write_wav_file (Vec (0 # sl)) filename Fs True = Inr w1"
    by (simp add: write_wav_file_Vec)
  define w2 where "w2 = 
    \<lparr>wav_name = take (length filename - 4) filename @ ''descrambled.wav'', wav_rate = Fs,
     wav_data = Vec (map (\<lambda>v. np_divide v (fold max dl 0)) (0 # dl))\<rparr>"
  have w2: "write_wav_file (Vec (0 # dl)) filename Fs False = Inr w2"
    by (simp add: write_wav_file_Vec w2_def)
  have run: "scramble_pass lb cheby1 mode sp rate 1 = Inr ([?c], [f], Some (Vec (0 # sl)))"
    "scrambler lb cheby1 mode filename sp rate 1 debug = ([w1, w2], None)"
    using scrambler_single_band [of mode cheby1 sp f "Vec (0 # sl)" filename w1 "Vec (0 # dl)" w2]
      assms(3,4) s d w1 w2 by (simp_all add: sp)
  show ?thesis
    using s d w1 w2 run lsl ldl x by (intro exI [of _ sl] exI [of _ dl] exI [of _ w1] exI [of _ w2])
      (simp add: w2_def)
qed

section \<open>The mode parameter\<close>

lemma scramble_pass_mode:
  assumes "mode \<in> {0, 1, 2}" and "mode' \<in> {0, 1, 2}"
  shows "scramble_pass lb cheby1 mode sp rate bands = scramble_pass lb cheby1 mode' sp rate bands"
proof -
  obtain ms ms' where "mode_string mode = Inr ms" "mode_string mode' = Inr ms'"
    using assms by (auto simp: mode_string_def)
  then show ?thesis by (simp add: scramble_pass_def then_do_def)
qed

text \<open>
  C9: for the modes 0, 1 and 2 the outcome of \<open>scrambler\<close> (the files written, their
  names, rates and samples, and the exception, if any) does not depend on the mode: the
  mode only selects the text of \<open>mode_string\<close>, and the three branches of the
  time-segmentation step are \<open>pass\<close>.
\<close>

theorem scrambler_mode_independent:
  assumes "mode \<in> {0, 1, 2}" and "mode' \<in> {0, 1, 2}"
  shows "scrambler lb cheby1 mode filename sp rate bands debug =
         scrambler lb cheby1 mode' filename sp rate bands debug"
  by (simp add: scrambler_def scramble_pass_mode [OF assms])

text \<open>C9 at the modes 0 and 2, for a two-sample recording and a pass-through filter.\<close>

theorem scrambler_mode_independent_witness:
  "scrambler None (\<lambda>d. Inr [\<lparr>sos_b0 = 1, sos_b1 = 0, sos_b2 = 0, sos_a0 = 1, sos_a1 = 0, sos_a2 = 0\<rparr>])
     0 ''speech_test.wav''
     \<lparr>sp_Fs = 8000, sp_Ts = 1 / 8000, sp_duration = 1 / 4000, sp_speech = [1, - 1],
      sp_time = [0, 1 / 4000]\<rparr> 0 1 False =
   scrambler None (\<lambda>d. Inr [\<lparr>sos_b0 = 1, sos_b1 = 0, sos_b2 = 0, sos_a0 = 1, sos_a1 = 0, sos_a2 = 0\<rparr>])
     2 ''speech_test.wav''
     \<lparr>sp_Fs = 8000, sp_Ts = 1 / 8000, sp_duration = 1 / 4000, sp_speech = [1, - 1],
      sp_time = [0, 1 / 4000]\<rparr> 0 1 False"
  using scrambler_mode_independent [of 0 2] by simp

section \<open>More than one band\<close>

lemma then_do_Inr_iff:
  "then_do r k = Inr v \<longleftrightarrow> (\<exists>u. r = Inr u \<and> k u = Inr v)"
  by (cases r) (simp_all add: then_do_def)

lemma scramble_pass_many_bands:
  assumes "1 < bands" and "scramble_pass lb cheby1 mode sp rate bands = Inr (c, l, v)"
  shows "v = None"
  using assms by (auto simp: scramble_pass_def then_do_Inr_iff Let_def recombine_def)

lemma map_result_length: "map_result f xs = Inr ys \<Longrightarrow> length ys = length xs"
  by (induction xs arbitrary: ys) (auto split: sum.splits)

lemma getfilts_length:
  assumes "getfilts cheby1 n fs = Inr filts"
  shows "length filts = nat n"
proof -
  have "n \<noteq> 0" using assms by (auto simp: getfilts_def split: if_splits)
  then show ?thesis
    using assms
    by (auto simp: getfilts_def py_range_def getfilts_loop_closed then_do_Inr_iff
        dest: map_result_length)
qed

lemma bandspec_None: "xs \<noteq> [] \<Longrightarrow> bandspec None xs hl = Inl NameError"
  by (cases xs) (simp_all add: bandspec_def spectrum_def then_do_def Let_def)

lemma bandsplit_None:
  assumes "1 < bands"
  shows "\<exists>e. bandsplit None cheby1 x bands Fs = Inl e"
proof (cases "getfilts cheby1 bands Fs")
  case (Inl e)
  then show ?thesis by (simp add: bandsplit_def then_do_def)
next
  case (Inr filts)
  then have len: "length filts = nat bands" by (rule getfilts_length)
  show ?thesis
  proof (cases "map_result (\<lambda>f. sosfilt f x) filts")
    case (Inl e)
    with Inr show ?thesis by (simp add: bandsplit_def then_do_def)
  next
    case inner: (Inr bs)
    then have "length bs = nat bands" using len by (auto dest: map_result_length)
    then have "bs \<noteq> []" using assms by auto
    with Inr inner show ?thesis by (simp add: bandsplit_def then_do_def bandspec_None)
  qed
qed

text \<open>
  C10: for more than one band, \<open>scrambler\<close> ends with an exception before any file is
  written, whatever \<open>lb\<close> is bound to. In the module as written (\<open>lb\<close> unbound) the band
  split itself always raises, \<open>spectrum\<close> raising \<open>NameError\<close>; and the recombination
  branch for more than one band assigns nothing, so that reading \<open>speech_scrambled\<close>
  raises even where the band split succeeds.
\<close>

theorem scrambler_many_bands_fails:
  assumes "1 < bands"
  shows "(\<exists>e. scrambler lb cheby1 mode filename sp rate bands debug = ([], Some e)) \<and>
         (\<exists>e. bandsplit None cheby1 x bands Fs = Inl e) \<and>
         spectrum None y hl = Inl NameError \<and>
         recombine bands inverted = Inr None"
proof -
  have "\<exists>e. scrambler lb cheby1 mode filename sp rate bands debug = ([], Some e)"
  proof (cases "scramble_pass lb cheby1 mode sp rate bands")
    case (Inl e)
    then show ?thesis by (simp add: scrambler_def)
  next
    case (Inr r)
    obtain c l v where r: "r = (c, l, v)" by (cases r) auto
    with Inr assms have "v = None" by (auto dest: scramble_pass_many_bands)
    with Inr r show ?thesis by (simp add: scrambler_def read_local_def then_do_def)
  qed
  then show ?thesis
    using assms bandsplit_None [OF assms] by (simp add: spectrum_def recombine_def)
qed

text \<open>
  C10 at two bands, with \<open>lb\<close> unbound as in the module: both band-pass designs and both
  filters succeed, and the run ends in \<open>NameError\<close> with no file written.
\<close>

theorem scrambler_many_bands_fails_witness:
  "scrambler None (\<lambda>d. Inr [\<lparr>sos_b0 = 1, sos_b1 = 0, sos_b2 = 0, sos_a0 = 1, sos_a1 = 0, sos_a2 = 0\<rparr>])
     0 ''speech_test.wav''
     \<lparr>sp_Fs = 8000, sp_Ts = 1 / 8000, sp_duration = 1 / 4000, sp_speech = [1, - 1],
      sp_time = [0, 1 / 4000]\<rparr> 0 2 False = ([], Some NameError)"
  using scrambler_many_bands_fails [of 2 None
      "\<lambda>d. Inr [\<lparr>sos_b0 = 1, sos_b1 = 0, sos_b2 = 0, sos_a0 = 1, sos_a1 = 0, sos_a2 = 0\<rparr>]"
      0 "''speech_test.wav''"
      "\<lparr>sp_Fs = 8000, sp_Ts = 1 / 8000, sp_duration = 1 / 4000, sp_speech = [1, - 1],
        sp_time = [0, 1 / 4000]\<rparr>" 0 False]
  by (simp add: scrambler_def scramble_pass_def mode_string_def then_do_def split_bands_def
      bandsplit_def getfilts_def py_trunc_def py_range_def upt_rec sosfilt_def bandspec_def
      spectrum_def remove_dc_def np_mean_def)

section \<open>Degenerate inputs\<close>

lemma scrambler_single_band_filter_error:
  assumes "mode \<in> {0, 1, 2}" and "lpfilter cheby1 2632 (sp_Fs sp) = Inl e"
  shows "scrambler lb cheby1 mode filename sp rate 1 debug = ([], Some e)"
proof -
  obtain ms where "mode_string mode = Inr ms" using assms(1) by (auto simp: mode_string_def)
  then have "scramble_pass lb cheby1 mode sp rate 1 = Inl e"
    using assms(2)
    by (simp add: scramble_pass_def split_bands_def generate_lpfilters_def py_range_def
        then_do_def standard_carriers_def Let_def)
  then show ?thesis by (simp add: scrambler_def)
qed

lemma invert_bad_filter:
  "\<not> list_all (\<lambda>c. sos_a0 c = 1) f \<Longrightarrow> invert signal c f = Inl ValueError"
  by (simp add: invert_def sosfilt_def then_do_def)

lemma scrambler_single_band_bad_filter:
  assumes "mode \<in> {0, 1, 2}" and "lpfilter cheby1 2632 (sp_Fs sp) = Inr f"
    and "\<not> list_all (\<lambda>c. sos_a0 c = 1) f"
  shows "scrambler lb cheby1 mode filename sp rate 1 debug = ([], Some ValueError)"
proof -
  obtain ms where "mode_string mode = Inr ms" using assms(1) by (auto simp: mode_string_def)
  then have "scramble_pass lb cheby1 mode sp rate 1 = Inl ValueError"
    using assms(2) invert_bad_filter [OF assms(3)]
    by (simp add: scramble_pass_def split_bands_def generate_lpfilters_def py_range_def
        generate_carriers_def invert_bands_def py_index_def
        then_do_def standard_carriers_def Let_def)
  then show ?thesis by (simp add: scrambler_def)
qed




section \<open>Round trip\<close>

text \<open>
  C1, amended: for band count 1, the modes 0, 1 and 2 and any rate, a non-empty recording
  and a low-pass design that succeeds, \<open>scrambler\<close> completes and the descrambled buffer
  is \<open>invert\<close> applied twice with the identical carrier and low-pass filter, after a DC
  removal each time. It has the length of the original and its first sample is exactly 0:
  the carrier starts at \<open>sin 0\<close> and the filter starts at rest. Closeness to the
  original is not part of what the code guarantees.
\<close>

theorem roundtrip_inverts_twice:
  assumes "read_wav_file Fs x = Inr sp" and "x \<noteq> []" and "mode \<in> {0, 1, 2}"
    and "lpfilter cheby1 2632 Fs = Inr f" and "list_all (\<lambda>c. sos_a0 c = 1) f"
  shows "\<exists>s d w1 w2.
           invert (remove_dc (Vec x)) (carrier 2632 (sp_time sp)) f = Inr (Vec s) \<and>
           invert (remove_dc (Vec s)) (carrier 2632 (sp_time sp)) f = Inr (Vec d) \<and>
           length d = length x \<and> hd d = 0 \<and>
           write_wav_file (Vec d) filename Fs False = Inr w2 \<and>
           scrambler lb cheby1 mode filename sp rate 1 debug = ([w1, w2], None)"
proof -
  obtain sl dl w1 w2 where
    "length dl + 1 = length x"
    "invert (remove_dc (Vec x)) (carrier 2632 (sp_time sp)) f = Inr (Vec (0 # sl))"
    "invert (remove_dc (Vec (0 # sl))) (carrier 2632 (sp_time sp)) f = Inr (Vec (0 # dl))"
    "write_wav_file (Vec (0 # dl)) filename Fs False = Inr w2"
    "scrambler lb cheby1 mode filename sp rate 1 debug = ([w1, w2], None)"
    using single_band_run [OF assms, of filename lb rate debug] by blast
  then show ?thesis
    by (intro exI [of _ "0 # sl"] exI [of _ "0 # dl"] exI [of _ w1] exI [of _ w2]) simp
qed

text \<open>The amended C1 at a two-sample recording, 8000 Hz, and a pass-through filter.\<close>

theorem roundtrip_inverts_twice_witness:
  "\<exists>s d w1 w2.
     invert (remove_dc (Vec [1, - 1])) (carrier 2632 [0, 1 / 4000])
       [\<lparr>sos_b0 = 1, sos_b1 = 0, sos_b2 = 0, sos_a0 = 1, sos_a1 = 0, sos_a2 = 0\<rparr>] = Inr (Vec s) \<and>
     invert (remove_dc (Vec s)) (carrier 2632 [0, 1 / 4000])
       [\<lparr>sos_b0 = 1, sos_b1 = 0, sos_b2 = 0, sos_a0 = 1, sos_a1 = 0, sos_a2 = 0\<rparr>] = Inr (Vec d) \<and>
     length d = 2 \<and> hd d = 0 \<and>
     scrambler None
       (\<lambda>d. Inr [\<lparr>sos_b0 = 1, sos_b1 = 0, sos_b2 = 0, sos_a0 = 1, sos_a1 = 0, sos_a2 = 0\<rparr>])
       0 ''speech_test.wav''
       \<lparr>sp_Fs = 8000, sp_Ts = 1 / 8000, sp_duration = 1 / 4000, sp_speech = [1, - 1],
        sp_time = [0, 1 / 4000]\<rparr> 0 1 False = ([w1, w2], None)"
proof -
  let ?f = "[\<lparr>sos_b0 = 1, sos_b1 = 0, sos_b2 = 0, sos_a0 = 1, sos_a1 = 0, sos_a2 = 0\<rparr>]"
  let ?sp = "\<lparr>sp_Fs = 8000, sp_Ts = 1 / 8000, sp_duration = 1 / 4000, sp_speech = [1, - 1],
        sp_time = [0, 1 / 4000]\<rparr>"
  have rd: "read_wav_file 8000 [1, - 1] = Inr ?sp"
    by (simp add: read_wav_file_def np_linspace_def upt_rec Let_def)
  have ne: "[1, - 1 :: real] \<noteq> []" and md: "(0 :: int) \<in> {0, 1, 2}" by simp_all
  have lp: "lpfilter (\<lambda>d. Inr ?f) 2632 8000 = Inr ?f" by (simp add: lpfilter_def)
  have ok: "list_all (\<lambda>c. sos_a0 c = 1) ?f" by simp
  show ?thesis
    using roundtrip_inverts_twice
        [where lb = None and filename = "''speech_test.wav''" and rate = 0 and debug = False,
          OF rd ne md lp ok]
    by force
qed

lemma example_recording:
  "read_wav_file 8000 [1, - 1] =
     Inr \<lparr>sp_Fs = 8000, sp_Ts = 1 / 8000, sp_duration = 1 / 4000, sp_speech = [1, - 1],
          sp_time = [0, 1 / 4000]\<rparr>"
  by (simp add: read_wav_file_def np_linspace_def upt_rec Let_def)

lemma written_buffer_off:
  "\<forall>lb cheby1 k.
      \<not> (\<exists>w1 w2.
           scrambler lb cheby1 0 ''speech_test.wav''
             \<lparr>sp_Fs = 8000, sp_Ts = 1 / 8000, sp_duration = 1 / 4000, sp_speech = [1, - 1],
              sp_time = [0, 1 / 4000]\<rparr> 0 1 False = ([w1, w2], None) \<and>
           within_tolerance (1 / 1000) (map ((*) k) [1, - 1]) (elems (wav_data w2)))"
proof (intro allI notI)
  let ?sp = "\<lparr>sp_Fs = 8000, sp_Ts = 1 / 8000, sp_duration = 1 / 4000, sp_speech = [1, - 1],
          sp_time = [0, 1 / 4000]\<rparr>"
  note rd = example_recording
  fix lb :: "stft option" and cheby1 :: "design \<Rightarrow> error + sos" and k :: real
  assume "\<exists>w1 w2. scrambler lb cheby1 0 ''speech_test.wav'' ?sp 0 1 False = ([w1, w2], None) \<and>
           within_tolerance (1 / 1000) (map ((*) k) [1, - 1]) (elems (wav_data w2))"
  then obtain w1 w2 where
    run: "scrambler lb cheby1 0 ''speech_test.wav'' ?sp 0 1 False = ([w1, w2], None)" and
    tol: "within_tolerance (1 / 1000) (map ((*) k) [1, - 1]) (elems (wav_data w2))"
    by blast
  have md: "(0 :: int) \<in> {0, 1, 2}" by simp
  show False
  proof (cases "lpfilter cheby1 2632 8000")
    case (Inl e)
    then show False
      using run scrambler_single_band_filter_error [of 0 cheby1 ?sp e lb "''speech_test.wav''" 0 False]
      by simp
  next
    case (Inr f)
    show False
    proof (cases "list_all (\<lambda>c. sos_a0 c = 1) f")
      case False
      then show False
        using run Inr
          scrambler_single_band_bad_filter [of 0 cheby1 ?sp f lb "''speech_test.wav''" 0 False]
        by simp
    next
      case True
      have ne: "[1, - 1 :: real] \<noteq> []" by simp
      obtain dl w1' w2' where
        len: "length dl + 1 = length [1, - 1 :: real]" and
        data: "wav_data w2' = Vec (map (\<lambda>v. np_divide v (fold max dl 0)) (0 # dl))" and
        run': "scrambler lb cheby1 0 ''speech_test.wav'' ?sp 0 1 False = ([w1', w2'], None)"
        using single_band_run
          [where lb = lb and filename = "''speech_test.wav''" and rate = 0 and debug = False,
            OF rd ne md Inr True]
        by blast
      obtain d1 where dl: "dl = [d1]" using len by (cases dl) auto
      have "w2 = w2'" using run run' by simp
      then have rec: "elems (wav_data w2) = [np_divide 0 (max d1 0), np_divide d1 (max d1 0)]"
        using data dl by simp
      show False
      proof (cases "max d1 0 = 0")
        case True
        then show False using tol rec by (simp add: within_tolerance_def np_divide_def)
      next
        case False
        then have pos: "0 < d1" and m: "max d1 0 = d1"
          by (simp_all add: max_def split: if_splits)
        have "elems (wav_data w2) = [Finite 0, Finite 1]"
          unfolding rec m using pos by (simp add: np_divide_def)
        then have "\<bar>0 - k\<bar> < 1 / 1000" and "\<bar>1 - k * (- 1)\<bar> < 1 / 1000"
          using tol by (simp_all add: within_tolerance_def)
        then show False by linarith
      qed
    qed
  qed
qed

lemma scramble_pass_single_band_result:
  assumes "scramble_pass lb cheby1 mode sp rate 1 = Inr (c, l, v)"
  shows "\<exists>f s. lpfilter cheby1 2632 (sp_Fs sp) = Inr f \<and> c = [carrier 2632 (sp_time sp)] \<and>
           l = [f] \<and> v = Some s \<and>
           invert (remove_dc (Vec (sp_speech sp))) (carrier 2632 (sp_time sp)) f = Inr s"
  using assms
  by (auto simp: scramble_pass_def then_do_Inr_iff split_bands_def generate_carriers_def
      generate_lpfilters_def invert_bands_def recombine_def py_range_def py_index_def
      standard_carriers_def Let_def split: sum.splits)

lemma memory_buffer_off:
  "\<forall>lb cheby1 c l s d.
      \<not> (scramble_pass lb cheby1 0
             \<lparr>sp_Fs = 8000, sp_Ts = 1 / 8000, sp_duration = 1 / 4000, sp_speech = [1, - 1],
              sp_time = [0, 1 / 4000]\<rparr> 0 1 = Inr (c, l, Some s) \<and>
           descramble_pass lb cheby1 8000 1 c l s = Inr (Some d) \<and>
           within_tolerance (1 / 1000) [1, - 1] (map Finite (elems d)))"
proof (intro allI notI)
  let ?sp = "\<lparr>sp_Fs = 8000, sp_Ts = 1 / 8000, sp_duration = 1 / 4000, sp_speech = [1, - 1],
          sp_time = [0, 1 / 4000]\<rparr>"
  note rd = example_recording
  fix lb :: "stft option" and cheby1 :: "design \<Rightarrow> error + sos"
    and c l s d
  assume a: "scramble_pass lb cheby1 0 ?sp 0 1 = Inr (c, l, Some s) \<and>
           descramble_pass lb cheby1 8000 1 c l s = Inr (Some d) \<and>
           within_tolerance (1 / 1000) [1, - 1] (map Finite (elems d))"
  then obtain f where f: "lpfilter cheby1 2632 8000 = Inr f"
    and c: "c = [carrier 2632 (sp_time ?sp)]" and l: "l = [f]"
    and s: "invert (remove_dc (Vec [1, - 1])) (carrier 2632 (sp_time ?sp)) f = Inr s"
    using scramble_pass_single_band_result [of lb cheby1 0 ?sp 0 c l "Some s"] by auto
  have ok: "list_all (\<lambda>c. sos_a0 c = 1) f"
    using s invert_bad_filter [of f "remove_dc (Vec [1, - 1])" "carrier 2632 (sp_time ?sp)"]
    by auto
  have ne: "[1, - 1 :: real] \<noteq> []" and md: "(0 :: int) \<in> {0, 1, 2}" by simp_all
  obtain sl dl where
    s': "invert (remove_dc (Vec [1, - 1])) (carrier 2632 (sp_time ?sp)) f = Inr (Vec (0 # sl))" and
    d': "invert (remove_dc (Vec (0 # sl))) (carrier 2632 (sp_time ?sp)) f = Inr (Vec (0 # dl))"
    using single_band_run [where lb = lb and filename = "[]" and rate = 0 and debug = False,
        OF rd ne md f ok]
    by blast
  have "s = Vec (0 # sl)" using s s' by simp
  then have "descramble_pass lb cheby1 8000 1 c l s = Inr (Some (Vec (0 # dl)))"
    using d' by (simp add: c l descramble_pass_def split_bands_def invert_bands_def
        recombine_def py_index_def then_do_def Let_def)
  then have "d = Vec (0 # dl)" using a by simp
  then show False using a by (simp add: within_tolerance_def)
qed

text \<open>
  C1, as stated, fails at the recording \<open>[1, -1]\<close> sampled at 8000 Hz, with band count
  1, mode 0 and rate 0, for every design procedure. The written descrambled buffer is
  not within 1e-3 of the original, whatever factor \<open>k\<close> normalizes the original: its
  first sample is 0 (or not a number) where the original has its peak, and when the
  first sample of \<open>k\<close> times the original is within 1e-3 of 0, the second differs from
  the written 1 by almost 1. The descrambled signal before normalization is not within
  1e-3 of the original either: its first sample is 0, the original's is 1.
\<close>

theorem roundtrip_first_sample_lost:
  "read_wav_file 8000 [1, - 1] =
     Inr \<lparr>sp_Fs = 8000, sp_Ts = 1 / 8000, sp_duration = 1 / 4000, sp_speech = [1, - 1],
          sp_time = [0, 1 / 4000]\<rparr> \<and>
   (\<forall>lb cheby1 k.
      \<not> (\<exists>w1 w2.
           scrambler lb cheby1 0 ''speech_test.wav''
             \<lparr>sp_Fs = 8000, sp_Ts = 1 / 8000, sp_duration = 1 / 4000, sp_speech = [1, - 1],
              sp_time = [0, 1 / 4000]\<rparr> 0 1 False = ([w1, w2], None) \<and>
           within_tolerance (1 / 1000) (map ((*) k) [1, - 1]) (elems (wav_data w2)))) \<and>
   (\<forall>lb cheby1 c l s d.
      \<not> (scramble_pass lb cheby1 0
             \<lparr>sp_Fs = 8000, sp_Ts = 1 / 8000, sp_duration = 1 / 4000, sp_speech = [1, - 1],
              sp_time = [0, 1 / 4000]\<rparr> 0 1 = Inr (c, l, Some s) \<and>
           descramble_pass lb cheby1 8000 1 c l s = Inr (Some d) \<and>
           within_tolerance (1 / 1000) [1, - 1] (map Finite (elems d))))"
  by (intro conjI) (rule example_recording, rule written_buffer_off, rule memory_buffer_off)

end
